theory Spec2Isabelle
  imports Complex_Main
begin

section \<open>Tensors\<close>

text \<open>
  The loss of \<^verbatim>\<open>examples/pipeline_wavernn/loss_mol.py\<close> works on torch tensors. A tensor is
  modelled as torch stores it: its sizes and its elements in row-major order. The elements
  are real numbers: the arithmetic of the model is exact, so rounding, overflow and the
  special values of floating point (infinities, nan) are outside it.
\<close>

record tensor =
  sizes :: "nat list"
  data :: "real list"

definition numel :: "tensor \<Rightarrow> nat" where
  "numel t = prod_list (sizes t)"

definition wf_tensor :: "tensor \<Rightarrow> bool" where
  "wf_tensor t = (length (data t) = numel t)"

text \<open>The exceptions that the modelled code can raise.\<close>

datatype error =
    AssertionError
  | RuntimeError
  | ZeroDivisionError
  | IndexError
  | ValueError string

subsection \<open>Rows along the last axis\<close>

text \<open>
  \<open>split_rows n d xs\<close> cuts \<open>xs\<close> into \<open>n\<close> consecutive rows of \<open>d\<close> elements. The rows of
  a tensor are its slices along the last axis; a tensor of rank 0 is one row of one element,
  as torch treats it when a reduction is given \<^verbatim>\<open>dim=-1\<close>.
\<close>

fun split_rows :: "nat \<Rightarrow> nat \<Rightarrow> 'a list \<Rightarrow> 'a list list" where
  "split_rows 0 d xs = []"
| "split_rows (Suc n) d xs = take d xs # split_rows n d (drop d xs)"

definition row_len :: "tensor \<Rightarrow> nat" where
  "row_len t = (if sizes t = [] then 1 else last (sizes t))"

definition num_rows :: "tensor \<Rightarrow> nat" where
  "num_rows t = prod_list (butlast (sizes t))"

definition t_rows :: "tensor \<Rightarrow> real list list" where
  "t_rows t = split_rows (num_rows t) (row_len t) (data t)"

subsection \<open>Elementwise operations and reductions\<close>

definition t_map :: "(real \<Rightarrow> real) \<Rightarrow> tensor \<Rightarrow> tensor" where
  "t_map f t = \<lparr>sizes = sizes t, data = map f (data t)\<rparr>"

text \<open>
  A binary operation on two tensors of the same sizes (every use below is on tensors of
  equal sizes, where torch does not broadcast).
\<close>

definition t_map2 :: "(real \<Rightarrow> real \<Rightarrow> real) \<Rightarrow> tensor \<Rightarrow> tensor \<Rightarrow> tensor" where
  "t_map2 f a b = \<lparr>sizes = sizes a, data = map2 f (data a) (data b)\<rparr>"

text \<open>The largest element of a non-empty row.\<close>

fun row_max :: "real list \<Rightarrow> real" where
  "row_max [x] = x"
| "row_max (x # y # ys) = max x (row_max (y # ys))"

text \<open>
  \<^verbatim>\<open>torch.max(x, dim=axis)\<close> over the last axis: torch raises an IndexError when the reduced
  axis has size 0 (there is no maximum of no elements). The result has lost the last axis.
\<close>

definition t_max_last :: "tensor \<Rightarrow> error + tensor" where
  "t_max_last x =
     (if sizes x \<noteq> [] \<and> last (sizes x) = 0 then Inl IndexError
      else Inr \<lparr>sizes = butlast (sizes x), data = map row_max (t_rows x)\<rparr>)"

text \<open>\<^verbatim>\<open>torch.sum(x, dim=axis)\<close> over the last axis.\<close>

definition t_sum_last :: "tensor \<Rightarrow> tensor" where
  "t_sum_last x = \<lparr>sizes = butlast (sizes x), data = map sum_list (t_rows x)\<rparr>"

text \<open>
  \<^verbatim>\<open>x - m2\<close> where \<open>m2\<close> holds one value per row of \<open>x\<close> on a kept last axis of size 1:
  broadcasting subtracts from every element of a row the value of that row.
\<close>

definition t_sub_keepdim :: "tensor \<Rightarrow> tensor \<Rightarrow> tensor" where
  "t_sub_keepdim x m2 =
     \<lparr>sizes = sizes x,
      data = concat (map2 (\<lambda>r mv. map (\<lambda>v. v - mv) r) (t_rows x) (data m2))\<rparr>"

section \<open>log\_sum\_exp\<close>

text \<open>
  \<^verbatim>\<open>
  def log_sum_exp(x):
      axis = len(x.size()) - 1
      m, _ = torch.max(x, dim=axis)
      m2, _ = torch.max(x, dim=axis, keepdim=True)
      return m + torch.log(torch.sum(torch.exp(x - m2), dim=axis))
  \<close>
  \<open>m2\<close> has the values of \<open>m\<close> on a kept axis, so the model uses the data of \<open>m\<close> for both.
\<close>

definition log_sum_exp :: "tensor \<Rightarrow> error + tensor" where
  "log_sum_exp x =
     (case t_max_last x of
        Inl e \<Rightarrow> Inl e
      | Inr m \<Rightarrow>
          Inr (t_map2 (+) m (t_map ln (t_sum_last (t_map exp (t_sub_keepdim x m))))))"



section \<open>The mixture of logistics loss\<close>

subsection \<open>The tensor operations it uses\<close>

text \<open>
  \<^verbatim>\<open>t[:, :, a:b]\<close>: the entries \<open>a\<close> (included) to \<open>b\<close> (excluded) of every row, with
  Python's clipping of the bounds to the length of the axis.
\<close>

definition t_slice_last :: "nat \<Rightarrow> nat \<Rightarrow> tensor \<Rightarrow> tensor" where
  "t_slice_last a b t =
     \<lparr>sizes = butlast (sizes t) @ [min b (row_len t) - min a (row_len t)],
      data = concat (map (\<lambda>r. take (b - a) (drop a r)) (t_rows t))\<rparr>"

text \<open>\<^verbatim>\<open>torch.clamp(t, min=c)\<close>.\<close>

definition t_clamp_min :: "real \<Rightarrow> tensor \<Rightarrow> tensor" where
  "t_clamp_min c t = t_map (max c) t"

text \<open>
  \<^verbatim>\<open>y.expand_as(other)\<close>. The sizes of \<open>y\<close> are aligned with those of \<open>other\<close> from the
  right; an axis of \<open>y\<close> must have the size of the other tensor's axis or size 1, in which
  case its content is repeated; axes that \<open>y\<close> lacks are added in front. Anything else is
  a RuntimeError of torch.
\<close>

definition expandable :: "nat list \<Rightarrow> nat list \<Rightarrow> bool" where
  "expandable s t =
     (length s \<le> length t \<and>
      list_all2 (\<lambda>a b. a = b \<or> a = 1) (replicate (length t - length s) 1 @ s) t)"

fun expand_data :: "nat list \<Rightarrow> nat list \<Rightarrow> real list \<Rightarrow> real list" where
  "expand_data (s # ss) (t # ts) d =
     (if s = t then concat (map (expand_data ss ts) (split_rows s (prod_list ss) d))
      else concat (replicate t (expand_data ss ts d)))"
| "expand_data _ _ d = d"

definition t_expand_as :: "tensor \<Rightarrow> tensor \<Rightarrow> error + tensor" where
  "t_expand_as y other =
     (if expandable (sizes y) (sizes other)
      then Inr \<lparr>sizes = sizes other,
                data = expand_data
                  (replicate (length (sizes other) - length (sizes y)) 1 @ sizes y)
                  (sizes other) (data y)\<rparr>
      else Inl RuntimeError)"

text \<open>The logistic function \<^verbatim>\<open>torch.sigmoid\<close>.\<close>

definition sigmoid :: "real \<Rightarrow> real" where
  "sigmoid x = 1 / (1 + exp (- x))"

text \<open>
  \<^verbatim>\<open>F.softplus\<close> with its default parameters \<^verbatim>\<open>beta=1, threshold=20\<close>: above the threshold
  torch returns its argument.
\<close>

definition softplus :: "real \<Rightarrow> real" where
  "softplus x = (if x > 20 then x else ln (1 + exp x))"

text \<open>
  \<^verbatim>\<open>F.log_softmax(t, -1)\<close>: every row minus the logarithm of the sum of its exponentials, which
  torch computes after subtracting the maximum of the row.
\<close>

definition log_softmax_row :: "real list \<Rightarrow> real list" where
  "log_softmax_row r =
     map (\<lambda>v. v - row_max r - ln (sum_list (map (\<lambda>u. exp (u - row_max r)) r))) r"

definition t_log_softmax :: "tensor \<Rightarrow> tensor" where
  "t_log_softmax x = \<lparr>sizes = sizes x, data = concat (map log_softmax_row (t_rows x))\<rparr>"

text \<open>
  \<^verbatim>\<open>torch.mean(t)\<close>: a tensor of rank 0 holding the sum of the elements divided by their number.
  (On a tensor without elements torch returns nan, which the reals do not have; there the
  model's division by zero yields 0.)
\<close>

definition t_mean :: "tensor \<Rightarrow> tensor" where
  "t_mean t = \<lparr>sizes = [], data = [sum_list (data t) / real (numel t)]\<rparr>"

text \<open>\<^verbatim>\<open>t.unsqueeze(-1)\<close> appends an axis of size 1; \<^verbatim>\<open>t.squeeze(-1)\<close> removes such a last axis.\<close>

definition t_unsqueeze_last :: "tensor \<Rightarrow> tensor" where
  "t_unsqueeze_last t = \<lparr>sizes = sizes t @ [1], data = data t\<rparr>"

definition t_squeeze_last :: "tensor \<Rightarrow> tensor" where
  "t_squeeze_last t =
     (if sizes t \<noteq> [] \<and> last (sizes t) = 1 then \<lparr>sizes = butlast (sizes t), data = data t\<rparr>
      else t)"

subsection \<open>LossFn\_Mol\<close>

text \<open>
  The local variables of \<^verbatim>\<open>LossFn_Mol\<close> when line 73 has been executed, under the names
  they have in the source (\<open>y\<close> is the target after \<^verbatim>\<open>y = y.expand_as(means)\<close>, \<open>log_probs\<close>
  the value before line 76 adds the mixture weights).
\<close>

record mol_locals =
  logit_probs :: tensor
  means :: tensor
  log_scales :: tensor
  y :: tensor
  centered_y :: tensor
  inv_stdv :: tensor
  plus_in :: tensor
  cdf_plus :: tensor
  min_in :: tensor
  cdf_min :: tensor
  log_cdf_plus :: tensor
  log_one_minus_cdf_min :: tensor
  cdf_delta :: tensor
  mid_in :: tensor
  log_pdf_mid :: tensor
  inner_inner_cond :: tensor
  inner_inner_out :: tensor
  inner_cond :: tensor
  inner_out :: tensor
  cond :: tensor
  log_probs :: tensor

text \<open>
  Lines 41 to 73, on the unpacked parameters and the expanded target. \<open>num_classes\<close> is a
  Python integer different from 1 here (see \<open>LossFn_Mol_locals\<close>); the comparisons followed
  by \<^verbatim>\<open>.float()\<close> give 1 or 0.
  \<^verbatim>\<open>
  centered_y = y - means
  inv_stdv = torch.exp(-log_scales)
  plus_in = inv_stdv * (centered_y + 1. / (num_classes - 1))
  cdf_plus = torch.sigmoid(plus_in)
  min_in = inv_stdv * (centered_y - 1. / (num_classes - 1))
  cdf_min = torch.sigmoid(min_in)
  log_cdf_plus = plus_in - F.softplus(plus_in)
  log_one_minus_cdf_min = -F.softplus(min_in)
  cdf_delta = cdf_plus - cdf_min
  mid_in = inv_stdv * centered_y
  log_pdf_mid = mid_in - log_scales - 2. * F.softplus(mid_in)
  inner_inner_cond = (cdf_delta > 1e-5).float()
  tmp = 10.397192449493701  # = np.log((num_classes - 1) / 2)
  inner_inner_out = inner_inner_cond * \
      torch.log(torch.clamp(cdf_delta, min=1e-12)) + \
      (1. - inner_inner_cond) * (log_pdf_mid - tmp)
  inner_cond = (y > 0.999).float()
  inner_out = inner_cond * log_one_minus_cdf_min + (1. - inner_cond) * inner_inner_out
  cond = (y < -0.999).float()
  log_probs = cond * log_cdf_plus + (1. - cond) * inner_out
  \<close>
\<close>

definition mixture_log_probs :: "tensor \<Rightarrow> tensor \<Rightarrow> tensor \<Rightarrow> tensor \<Rightarrow> int \<Rightarrow> mol_locals" where
  "mixture_log_probs logit_probs' means' log_scales' y' num_classes =
     (let centered_y' = t_map2 (-) y' means';
          inv_stdv' = t_map exp (t_map uminus log_scales');
          plus_in' = t_map2 (*) inv_stdv'
                       (t_map (\<lambda>v. v + 1 / real_of_int (num_classes - 1)) centered_y');
          cdf_plus' = t_map sigmoid plus_in';
          min_in' = t_map2 (*) inv_stdv'
                      (t_map (\<lambda>v. v - 1 / real_of_int (num_classes - 1)) centered_y');
          cdf_min' = t_map sigmoid min_in';
          log_cdf_plus' = t_map2 (-) plus_in' (t_map softplus plus_in');
          log_one_minus_cdf_min' = t_map uminus (t_map softplus min_in');
          cdf_delta' = t_map2 (-) cdf_plus' cdf_min';
          mid_in' = t_map2 (*) inv_stdv' centered_y';
          log_pdf_mid' = t_map2 (-) (t_map2 (-) mid_in' log_scales')
                           (t_map (\<lambda>v. 2 * v) (t_map softplus mid_in'));
          inner_inner_cond' = t_map (\<lambda>v. if v > 1 / 10 ^ 5 then 1 else 0) cdf_delta';
          tmp = 10.397192449493701;
          inner_inner_out' =
            t_map2 (+)
              (t_map2 (*) inner_inner_cond' (t_map ln (t_clamp_min (1 / 10 ^ 12) cdf_delta')))
              (t_map2 (*) (t_map (\<lambda>v. 1 - v) inner_inner_cond')
                 (t_map (\<lambda>v. v - tmp) log_pdf_mid'));
          inner_cond' = t_map (\<lambda>v. if v > 0.999 then 1 else 0) y';
          inner_out' =
            t_map2 (+) (t_map2 (*) inner_cond' log_one_minus_cdf_min')
              (t_map2 (*) (t_map (\<lambda>v. 1 - v) inner_cond') inner_inner_out');
          cond' = t_map (\<lambda>v. if v < - 0.999 then 1 else 0) y';
          log_probs' =
            t_map2 (+) (t_map2 (*) cond' log_cdf_plus')
              (t_map2 (*) (t_map (\<lambda>v. 1 - v) cond') inner_out')
      in \<lparr>logit_probs = logit_probs', means = means', log_scales = log_scales', y = y',
          centered_y = centered_y', inv_stdv = inv_stdv', plus_in = plus_in',
          cdf_plus = cdf_plus', min_in = min_in', cdf_min = cdf_min',
          log_cdf_plus = log_cdf_plus', log_one_minus_cdf_min = log_one_minus_cdf_min',
          cdf_delta = cdf_delta', mid_in = mid_in', log_pdf_mid = log_pdf_mid',
          inner_inner_cond = inner_inner_cond', inner_inner_out = inner_inner_out',
          inner_cond = inner_cond', inner_out = inner_out', cond = cond',
          log_probs = log_probs'\<rparr>)"

text \<open>
  Lines 24 to 73 of \<^verbatim>\<open>LossFn_Mol\<close>: the default of \<open>log_scale_min\<close>, the two assertions on
  the shape of \<open>y_hat\<close>, the unpacking of the parameters, the expansion of the target, and
  the elementwise computation. \<^verbatim>\<open>1. / (num_classes - 1)\<close> divides a Python float by a
  Python integer and raises ZeroDivisionError when \<open>num_classes\<close> is 1.
  \<^verbatim>\<open>
  min_value = -32.23619130191664  # = float(np.log(1e-14))
  if log_scale_min is None:
      log_scale_min = min_value
  assert y_hat.dim() == 3
  assert y_hat.size(-1) % 3 == 0
  nr_mix = y_hat.size(-1) // 3
  logit_probs = y_hat[:, :, :nr_mix]
  means = y_hat[:, :, nr_mix:2 * nr_mix]
  log_scales = torch.clamp(y_hat[:, :, 2 * nr_mix:3 * nr_mix], min=log_scale_min)
  y = y.expand_as(means)
  \<close>
\<close>

definition LossFn_Mol_locals ::
  "tensor \<Rightarrow> tensor \<Rightarrow> int \<Rightarrow> real option \<Rightarrow> error + mol_locals" where
  "LossFn_Mol_locals y_hat y0 num_classes log_scale_min0 =
     (let min_value = - 32.23619130191664;
          log_scale_min = (case log_scale_min0 of None \<Rightarrow> min_value | Some v \<Rightarrow> v)
      in if length (sizes y_hat) \<noteq> 3 then Inl AssertionError
         else if last (sizes y_hat) mod 3 \<noteq> 0 then Inl AssertionError
         else
           let nr_mix = last (sizes y_hat) div 3;
               logit_probs' = t_slice_last 0 nr_mix y_hat;
               means' = t_slice_last nr_mix (2 * nr_mix) y_hat;
               log_scales' =
                 t_clamp_min log_scale_min (t_slice_last (2 * nr_mix) (3 * nr_mix) y_hat)
           in case t_expand_as y0 means' of
                Inl e \<Rightarrow> Inl e
              | Inr y' \<Rightarrow>
                  if num_classes = 1 then Inl ZeroDivisionError
                  else Inr (mixture_log_probs logit_probs' means' log_scales' y' num_classes))"

text \<open>
  The whole function: line 76 adds the logarithms of the mixture weights, lines 78 to 81
  reduce over the mixture axis and return.
  \<^verbatim>\<open>
  log_probs = log_probs + F.log_softmax(logit_probs, -1)
  if reduce:
      return -torch.mean(log_sum_exp(log_probs))
  else:
      return -log_sum_exp(log_probs).unsqueeze(-1)
  \<close>
\<close>

definition LossFn_Mol :: "tensor \<Rightarrow> tensor \<Rightarrow> int \<Rightarrow> real option \<Rightarrow> bool \<Rightarrow> error + tensor" where
  "LossFn_Mol y_hat y0 num_classes log_scale_min0 reduce =
     (case LossFn_Mol_locals y_hat y0 num_classes log_scale_min0 of
        Inl e \<Rightarrow> Inl e
      | Inr v \<Rightarrow>
          (case log_sum_exp (t_map2 (+) (log_probs v) (t_log_softmax (logit_probs v))) of
             Inl e \<Rightarrow> Inl e
           | Inr lse \<Rightarrow>
               if reduce then Inr (t_map uminus (t_mean lse))
               else Inr (t_map uminus (t_unsqueeze_last lse))))"

text \<open>
  The inputs on which \<^verbatim>\<open>LossFn_Mol\<close> computes a loss: both tensors are well formed, \<open>y_hat\<close>
  has three axes, the last of a size \<open>3 * K\<close> with at least one mixture component, the
  target can be expanded to the sizes of the means, and \<open>num_classes\<close> is not 1.
\<close>

definition valid_input :: "tensor \<Rightarrow> tensor \<Rightarrow> int \<Rightarrow> bool" where
  "valid_input y_hat y0 num_classes =
     (wf_tensor y_hat \<and> wf_tensor y0 \<and> length (sizes y_hat) = 3 \<and>
      last (sizes y_hat) mod 3 = 0 \<and> 0 < last (sizes y_hat) \<and>
      expandable (sizes y0) (butlast (sizes y_hat) @ [last (sizes y_hat) div 3]) \<and>
      num_classes \<noteq> 1)"


text \<open>
  The perturbation of the mixing logits: \<open>c\<close> is added to the first third of every row of
  \<open>y_hat\<close>, that is to all the entries of the \<open>logit_probs\<close> slice at every position of the
  batch and time axes; the means and the log-scales are kept.
\<close>

definition shift_logits :: "real \<Rightarrow> tensor \<Rightarrow> tensor" where
  "shift_logits c y_hat =
     \<lparr>sizes = sizes y_hat,
      data = concat (map (\<lambda>r. map (\<lambda>v. v + c) (take (row_len y_hat div 3) r)
                               @ drop (row_len y_hat div 3) r) (t_rows y_hat))\<rparr>"

section \<open>The mode of the model in the training and evaluation loops\<close>

text \<open>
  \<^verbatim>\<open>train_one_epoch\<close> and \<^verbatim>\<open>evaluate\<close> of \<^verbatim>\<open>examples/pipeline_wavernn/wavernn.py\<close> run over
  the batches of a data loader. The network, the loss, the optimizer and the tensor methods
  are collaborators outside the specification: they are parameters of the model, functions
  that return. The model object has its mode tag and its state \<open>params\<close> (the weights, with
  the state of the optimizer). \<open>forward\<close> is \<^verbatim>\<open>model(x, m)\<close>, \<open>criterion\<close> the number
  \<^verbatim>\<open>criterion(y_hat, y).item()\<close>; for the batch \<open>(x, m, y)\<close> and \<^verbatim>\<open>args.clip_norm\<close>,
  \<open>clip_grad_norm\<close> is the norm that \<^verbatim>\<open>clip_grad_norm_\<close> returns after \<^verbatim>\<open>loss.backward()\<close> and
  \<open>optimizer_step\<close> the state after \<^verbatim>\<open>optimizer.step()\<close>, which changes the state only.
\<close>

record 'p model =
  mode :: string
  params :: 'p

record ('p, 't) collaborators =
  forward :: "'p \<Rightarrow> 't \<Rightarrow> 't \<Rightarrow> 't"
  transpose_1_2 :: "'t \<Rightarrow> 't"
  float_unsqueeze :: "'t \<Rightarrow> 't"
  criterion :: "'t \<Rightarrow> 't \<Rightarrow> real"
  clip_grad_norm :: "'p \<Rightarrow> 't \<Rightarrow> 't \<Rightarrow> 't \<Rightarrow> real \<Rightarrow> real"
  optimizer_step :: "'p \<Rightarrow> 't \<Rightarrow> 't \<Rightarrow> 't \<Rightarrow> real \<Rightarrow> 'p"

text \<open>
  \<^verbatim>\<open>sums = defaultdict(lambda: 0.0)\<close>: the key \<^verbatim>\<open>"loss"\<close> is read at the end in any case, the
  key \<^verbatim>\<open>"gradient"\<close> exists only once a gradient norm has been added.
\<close>

record sums_dict =
  loss :: real
  gradient :: "real option"

text \<open>
  The selection that both loops make from the mode, lines 256 to 263 and 306 to 313:
  \<^verbatim>\<open>
  if model.mode == 'RAW':
      y_hat = y_hat.transpose(1, 2)
  elif model.mode == 'MOL':
      y = y.float().unsqueeze(-1)
  else:
      raise ValueError('This input mode is not valid.')
  \<close>
\<close>

definition select_mode :: "('p, 't) collaborators \<Rightarrow> string \<Rightarrow> 't \<Rightarrow> 't \<Rightarrow> error + 't \<times> 't" where
  "select_mode C md y_hat y0 =
     (if md = ''RAW'' then Inr (transpose_1_2 C y_hat, y0)
      else if md = ''MOL'' then Inr (y_hat, float_unsqueeze C y0)
      else Inl (ValueError ''This input mode is not valid.''))"

text \<open>
  The loop of \<^verbatim>\<open>train_one_epoch\<close> over the batches \<open>(x, m, y)\<close>, with \<^verbatim>\<open>args.clip_norm\<close> as
  a parameter:
  \<^verbatim>\<open>
  y_hat = model(x, m)
  (the selection above)
  loss = criterion(y_hat, y)
  sums["loss"] += loss.item()
  optimizer.zero_grad()
  loss.backward()
  if args.clip_norm > 0:
      sums["gradient"] += torch.nn.utils.clip_grad_norm_(model.parameters(), args.clip_norm)
  optimizer.step()
  \<close>
\<close>

fun train_batches ::
  "('p, 't) collaborators \<Rightarrow> real \<Rightarrow> 'p model \<Rightarrow> sums_dict \<Rightarrow> ('t \<times> 't \<times> 't) list
    \<Rightarrow> error + 'p model \<times> sums_dict" where
  "train_batches C clip_norm mdl s [] = Inr (mdl, s)"
| "train_batches C clip_norm mdl s ((x, m, y0) # batches) =
     (case select_mode C (mode mdl) (forward C (params mdl) x m) y0 of
        Inl e \<Rightarrow> Inl e
      | Inr (y_hat, y1) \<Rightarrow>
          let s1 = s\<lparr>loss := loss s + criterion C y_hat y1\<rparr>;
              s2 = (if clip_norm > 0
                    then s1\<lparr>gradient := Some ((case gradient s1 of None \<Rightarrow> 0 | Some g \<Rightarrow> g)
                                               + clip_grad_norm C (params mdl) x m y1 clip_norm)\<rparr>
                    else s1);
              mdl1 = mdl\<lparr>params := optimizer_step C (params mdl) x m y1 clip_norm\<rparr>
          in train_batches C clip_norm mdl1 s2 batches)"

text \<open>
  After the loop the averages divide by \<^verbatim>\<open>len(data_loader)\<close>, which raises
  ZeroDivisionError for a loader without batches. The result is the model after the epoch
  with the two averages that the function prints.
\<close>

definition train_one_epoch ::
  "('p, 't) collaborators \<Rightarrow> real \<Rightarrow> 'p model \<Rightarrow> ('t \<times> 't \<times> 't) list
    \<Rightarrow> error + 'p model \<times> real \<times> real option" where
  "train_one_epoch C clip_norm mdl data_loader =
     (case train_batches C clip_norm mdl \<lparr>loss = 0, gradient = None\<rparr> data_loader of
        Inl e \<Rightarrow> Inl e
      | Inr (mdl1, s) \<Rightarrow>
          if length data_loader = 0 then Inl ZeroDivisionError
          else Inr (mdl1, loss s / real (length data_loader),
                    map_option (\<lambda>g. g / real (length data_loader)) (gradient s)))"

text \<open>
  The loop of \<^verbatim>\<open>evaluate\<close>, which only accumulates the loss, and its result \<^verbatim>\<open>avg_loss\<close>.
\<close>

fun evaluate_batches ::
  "('p, 't) collaborators \<Rightarrow> 'p model \<Rightarrow> real \<Rightarrow> ('t \<times> 't \<times> 't) list \<Rightarrow> error + real" where
  "evaluate_batches C mdl s [] = Inr s"
| "evaluate_batches C mdl s ((x, m, y0) # batches) =
     (case select_mode C (mode mdl) (forward C (params mdl) x m) y0 of
        Inl e \<Rightarrow> Inl e
      | Inr (y_hat, y1) \<Rightarrow> evaluate_batches C mdl (s + criterion C y_hat y1) batches)"

definition evaluate :: "('p, 't) collaborators \<Rightarrow> 'p model \<Rightarrow> ('t \<times> 't \<times> 't) list \<Rightarrow> error + real" where
  "evaluate C mdl data_loader =
     (case evaluate_batches C mdl 0 data_loader of
        Inl e \<Rightarrow> Inl e
      | Inr s \<Rightarrow>
          if length data_loader = 0 then Inl ZeroDivisionError
          else Inr (s / real (length data_loader)))"

section \<open>Facts about rows and tensors\<close>

text \<open>
  Cutting a list into rows and joining rows again; the rows of a well-formed tensor all
  have the length of its last axis.
\<close>

lemma length_split_rows [simp]: "length (split_rows n d xs) = n"
  by (induction n arbitrary: xs) auto


lemma split_rows_concat:
  "length xss = n \<Longrightarrow> \<forall>r\<in>set xss. length r = d \<Longrightarrow> split_rows n d (concat xss) = xss"
  by (induction xss arbitrary: n) auto

lemma split_rows_row_length:
  "n * d \<le> length xs \<Longrightarrow> r \<in> set (split_rows n d xs) \<Longrightarrow> length r = d"
proof (induction n arbitrary: xs)
  case 0
  then show ?case by simp
next
  case (Suc n)
  from Suc.prems(1) have le: "d \<le> length xs" "n * d \<le> length (drop d xs)"
    by auto
  from Suc.prems(2) consider "r = take d xs" | "r \<in> set (split_rows n d (drop d xs))"
    by auto
  then show ?case
  proof cases
    case 1
    with le show ?thesis by simp
  next
    case 2
    with Suc.IH le show ?thesis by blast
  qed
qed

lemma length_concat_const:
  "(\<And>r. r \<in> set xss \<Longrightarrow> length (h r) = c) \<Longrightarrow> length (concat (map h xss)) = length xss * c"
  by (induction xss) auto

lemma concat_singletons: "concat (map (\<lambda>r. [c]) xs) = replicate (length xs) c"
  by (induction xs) auto



lemma numel_rows: "numel t = num_rows t * row_len t"
proof (cases "sizes t = []")
  case True
  then show ?thesis by (simp add: numel_def num_rows_def row_len_def)
next
  case False
  then have "prod_list (butlast (sizes t) @ [last (sizes t)]) = prod_list (sizes t)"
    by simp
  with False show ?thesis
    by (simp add: numel_def num_rows_def row_len_def del: append_butlast_last_id)
qed

lemma t_rows_length [simp]: "length (t_rows t) = num_rows t"
  by (simp add: t_rows_def)

lemma t_rows_row_length: "wf_tensor t \<Longrightarrow> r \<in> set (t_rows t) \<Longrightarrow> length r = row_len t"
  unfolding t_rows_def wf_tensor_def
  by (rule split_rows_row_length [of "num_rows t" _ "data t"]) (simp_all add: numel_rows)

lemma sizes_t_map [simp]: "sizes (t_map f t) = sizes t"
  by (simp add: t_map_def)

lemma data_t_map [simp]: "data (t_map f t) = map f (data t)"
  by (simp add: t_map_def)

lemma sizes_t_map2 [simp]: "sizes (t_map2 f a b) = sizes a"
  by (simp add: t_map2_def)

lemma data_t_map2 [simp]: "data (t_map2 f a b) = map2 f (data a) (data b)"
  by (simp add: t_map2_def)

lemma wf_t_map [simp]: "wf_tensor (t_map f t) = wf_tensor t"
  by (simp add: wf_tensor_def numel_def)


lemma num_rows_sizes [simp]: "num_rows \<lparr>sizes = sizes t, data = d\<rparr> = num_rows t"
  by (simp add: num_rows_def)

lemma row_len_sizes [simp]: "row_len \<lparr>sizes = sizes t, data = d\<rparr> = row_len t"
  by (simp add: row_len_def)


subsection \<open>Slices and expansion\<close>


lemma sizes_t_slice_last [simp]:
  "sizes (t_slice_last a b t) = butlast (sizes t) @ [min b (row_len t) - min a (row_len t)]"
  by (simp add: t_slice_last_def)

lemma num_rows_t_slice_last [simp]: "num_rows (t_slice_last a b t) = num_rows t"
  by (simp add: num_rows_def)

lemma row_len_t_slice_last [simp]:
  "row_len (t_slice_last a b t) = min b (row_len t) - min a (row_len t)"
  by (simp add: row_len_def [of "t_slice_last a b t"])

lemma data_t_slice_last:
  "data (t_slice_last a b t) = concat (map (\<lambda>r. take (b - a) (drop a r)) (t_rows t))"
  by (simp add: t_slice_last_def)

lemma t_rows_t_slice_last:
  assumes "wf_tensor t"
  shows "t_rows (t_slice_last a b t) = map (\<lambda>r. take (b - a) (drop a r)) (t_rows t)"
proof -
  let ?w = "min b (row_len t) - min a (row_len t)"
  have "length (take (b - a) (drop a r)) = ?w" if "r \<in> set (t_rows t)" for r
    using t_rows_row_length [OF assms that] by auto
  then have "split_rows (num_rows t) ?w (concat (map (\<lambda>r. take (b - a) (drop a r)) (t_rows t)))
      = map (\<lambda>r. take (b - a) (drop a r)) (t_rows t)"
    by (intro split_rows_concat) auto
  then show ?thesis
    unfolding t_rows_def [of "t_slice_last a b t"] num_rows_t_slice_last row_len_t_slice_last
      data_t_slice_last .
qed

lemma t_slice_last_tail_cong:
  assumes "sizes a = sizes b" and "map (drop k) (t_rows a) = map (drop k) (t_rows b)"
    and "k \<le> i"
  shows "t_slice_last i j a = t_slice_last i j b"
proof -
  have eq: "map (\<lambda>r. take (j - i) (drop i r)) (t_rows t)
      = map (\<lambda>r. take (j - i) (drop (i - k) r)) (map (drop k) (t_rows t))" for t
    using assms(3) by simp
  have "data (t_slice_last i j a)
      = concat (map (\<lambda>r. take (j - i) (drop (i - k) r)) (map (drop k) (t_rows a)))"
    by (simp only: data_t_slice_last eq)
  also have "\<dots> = concat (map (\<lambda>r. take (j - i) (drop (i - k) r)) (map (drop k) (t_rows b)))"
    by (simp only: assms(2))
  also have "\<dots> = data (t_slice_last i j b)"
    by (simp only: data_t_slice_last eq)
  finally have "data (t_slice_last i j a) = data (t_slice_last i j b)" .
  moreover from assms(1) have "sizes (t_slice_last i j a) = sizes (t_slice_last i j b)"
    by (simp add: row_len_def)
  ultimately show ?thesis by simp
qed

lemma sizes_t_clamp_min [simp]: "sizes (t_clamp_min c t) = sizes t"
  by (simp add: t_clamp_min_def)

lemma wf_t_clamp_min [simp]: "wf_tensor (t_clamp_min c t) = wf_tensor t"
  by (simp add: t_clamp_min_def)

lemma length_expand_data:
  "list_all2 (\<lambda>a b. a = b \<or> a = 1) s t \<Longrightarrow> length d = prod_list s
    \<Longrightarrow> length (expand_data s t d) = prod_list t"
proof (induction s t arbitrary: d rule: list_all2_induct)
  case Nil
  then show ?case by simp
next
  case (Cons a s b t)
  show ?case
  proof (cases "a = b")
    case True
    have "length (expand_data s t r) = prod_list t"
      if "r \<in> set (split_rows a (prod_list s) d)" for r
    proof -
      from Cons.prems have "a * prod_list s \<le> length d" by simp
      from split_rows_row_length [OF this that] have "length r = prod_list s" .
      then show ?thesis by (rule Cons.IH)
    qed
    then have "length (concat (map (expand_data s t) (split_rows a (prod_list s) d)))
        = length (split_rows a (prod_list s) d) * prod_list t"
      by (rule length_concat_const)
    with True show ?thesis by simp
  next
    case False
    with Cons.hyps have "a = 1" by simp
    with Cons.prems have "length d = prod_list s" by simp
    then have "length (expand_data s t d) = prod_list t" by (rule Cons.IH)
    with False show ?thesis
      by (simp add: length_concat sum_list_replicate)
  qed
qed

lemma prod_list_replicate_one [simp]: "prod_list (replicate n (Suc 0) @ s) = prod_list s"
  by (induction n) auto

lemma wf_t_expand_as:
  assumes "t_expand_as a b = Inr c" and "wf_tensor a"
  shows "wf_tensor c" and "sizes c = sizes b"
proof -
  from assms(1) have ex: "expandable (sizes a) (sizes b)"
    and c: "c = \<lparr>sizes = sizes b, data = expand_data
        (replicate (length (sizes b) - length (sizes a)) 1 @ sizes a) (sizes b) (data a)\<rparr>"
    by (auto simp: t_expand_as_def split: if_splits)
  from c show "sizes c = sizes b" by simp
  from ex assms(2) have "length (expand_data
        (replicate (length (sizes b) - length (sizes a)) 1 @ sizes a) (sizes b) (data a))
      = prod_list (sizes b)"
    by (intro length_expand_data) (simp_all add: expandable_def wf_tensor_def numel_def)
  with c show "wf_tensor c" by (simp add: wf_tensor_def numel_def)
qed




lemma nth_concat_replicate:
  "p < length d \<Longrightarrow> j < k \<Longrightarrow> concat (map (replicate k) d) ! (p * k + j) = d ! p"
proof (induction d arbitrary: p)
  case Nil
  then show ?case by simp
next
  case (Cons x d)
  show ?case
  proof (cases p)
    case 0
    with Cons.prems show ?thesis by (simp add: nth_append)
  next
    case (Suc q)
    with Cons.prems have "concat (map (replicate k) d) ! (q * k + j) = d ! q"
      by (intro Cons.IH) auto
    with Suc show ?thesis by (simp add: nth_append add.assoc)
  qed
qed


lemma t_expand_as_error: "t_expand_as a b = Inl e \<Longrightarrow> e = RuntimeError"
  by (auto simp: t_expand_as_def split: if_splits)

subsection \<open>log\_sum\_exp on rows\<close>







lemma log_sum_exp_error: "log_sum_exp x = Inl e \<Longrightarrow> e = IndexError"
  by (auto simp: log_sum_exp_def t_max_last_def split: if_splits sum.splits)

lemma log_sum_exp_ok:
  assumes "sizes x = [] \<or> last (sizes x) \<noteq> 0"
  shows "\<exists>out. log_sum_exp x = Inr out \<and> sizes out = butlast (sizes x)
           \<and> length (data out) = num_rows x"
  using assms
  by (auto simp: log_sum_exp_def t_max_last_def t_sum_last_def num_rows_def t_sub_keepdim_def)

lemma log_sum_exp_returns: "log_sum_exp x = Inr out \<Longrightarrow> sizes x = [] \<or> last (sizes x) \<noteq> 0"
  by (auto simp: log_sum_exp_def t_max_last_def split: if_splits)

subsection \<open>The softmax of the mixing logits\<close>



lemma log_softmax_row_single: "log_softmax_row [v] = [0]"
  by (simp add: log_softmax_row_def)

lemma log_softmax_single_logit:
  assumes "wf_tensor t" and "0 < row_len t"
  shows "data (t_log_softmax (t_slice_last 0 1 t)) = replicate (num_rows t) 0"
proof -
  have "log_softmax_row (take 1 r) = [0]" if "r \<in> set (t_rows t)" for r
  proof -
    from t_rows_row_length [OF assms(1) that] assms(2) obtain v vs where "r = v # vs"
      by (cases r) auto
    then show ?thesis by (simp add: log_softmax_row_single)
  qed
  then have single: "map (\<lambda>r. log_softmax_row (take 1 r)) (t_rows t) = map (\<lambda>r. [0]) (t_rows t)"
    by (intro map_cong) auto
  have "concat (map log_softmax_row (t_rows (t_slice_last 0 1 t)))
      = concat (map (\<lambda>r. log_softmax_row (take 1 r)) (t_rows t))"
    by (simp add: t_rows_t_slice_last [OF assms(1)] comp_def)
  also have "\<dots> = concat (map (\<lambda>r. [0]) (t_rows t))"
    by (simp only: single)
  also have "\<dots> = replicate (length (t_rows t)) 0"
    by (rule concat_singletons)
  finally show ?thesis
    by (simp add: t_log_softmax_def)
qed

subsection \<open>The shifted logits\<close>

text \<open>
  Shifting the logits changes the first third of every row only: the slices behind it are
  the same, and so is the log-softmax of the first.
\<close>

lemma sizes_shift_logits [simp]: "sizes (shift_logits c t) = sizes t"
  by (simp add: shift_logits_def)

lemma row_len_shift_logits [simp]: "row_len (shift_logits c t) = row_len t"
  by (simp add: row_len_def)







section \<open>Facts about LossFn\_Mol\<close>

subsection \<open>The elementwise computation\<close>

text \<open>
  What the masks select at one element: the fallback and the ordinary value of the inner
  blend, and the two edge values of the outer blends.
\<close>

lemma mixture_fallback_elem:
  assumes "v = mixture_log_probs lp m ls y' nc"
    and "i < length (data (inner_inner_out v))"
    and "\<not> data (cdf_delta v) ! i > 1 / 10 ^ 5"
  shows "data (inner_inner_out v) ! i = data (log_pdf_mid v) ! i - 10.397192449493701"
  using assms by (simp add: mixture_log_probs_def Let_def t_clamp_min_def)

lemma mixture_ordinary_elem:
  assumes "v = mixture_log_probs lp m ls y' nc"
    and "i < length (data (inner_inner_out v))"
    and "data (cdf_delta v) ! i > 1 / 10 ^ 5"
  shows "data (inner_inner_out v) ! i = ln (max (1 / 10 ^ 12) (data (cdf_delta v) ! i))"
  using assms by (simp add: mixture_log_probs_def Let_def t_clamp_min_def)



lemma mixture_interior_elem:
  assumes "v = mixture_log_probs lp m ls y' nc"
    and "i < length (data (log_probs v))"
    and "\<not> data (y v) ! i > 0.999" and "\<not> data (y v) ! i < - 0.999"
  shows "data (log_probs v) ! i = data (inner_inner_out v) ! i"
  using assms by (simp add: mixture_log_probs_def Let_def t_clamp_min_def)

lemma mixture_logit_probs [simp]: "logit_probs (mixture_log_probs lp m ls y' nc) = lp"
  by (simp add: mixture_log_probs_def Let_def)

lemma mixture_y [simp]: "y (mixture_log_probs lp m ls y' nc) = y'"
  by (simp add: mixture_log_probs_def Let_def)

lemma mixture_means [simp]: "means (mixture_log_probs lp m ls y' nc) = m"
  by (simp add: mixture_log_probs_def Let_def)

lemma mixture_sizes_log_probs [simp]:
  "sizes (log_probs (mixture_log_probs lp m ls y' nc)) = sizes y'"
  by (simp add: mixture_log_probs_def Let_def)


lemma mixture_log_probs_indep:
  "log_probs (mixture_log_probs lp m ls y' nc) = log_probs (mixture_log_probs lp' m ls y' nc)"
  by (simp add: mixture_log_probs_def Let_def)

subsection \<open>Errors and results\<close>

lemma LossFn_Mol_locals_unfold:
  "LossFn_Mol_locals t y0 num_classes lsm =
      (if length (sizes t) \<noteq> 3 \<or> last (sizes t) mod 3 \<noteq> 0 then Inl AssertionError
       else case t_expand_as y0 (t_slice_last (last (sizes t) div 3) (2 * (last (sizes t) div 3)) t) of
           Inl e \<Rightarrow> Inl e
         | Inr y' \<Rightarrow> if num_classes = 1 then Inl ZeroDivisionError
             else Inr (mixture_log_probs (t_slice_last 0 (last (sizes t) div 3) t)
                (t_slice_last (last (sizes t) div 3) (2 * (last (sizes t) div 3)) t)
                (t_clamp_min (case lsm of None \<Rightarrow> - 32.23619130191664 | Some v \<Rightarrow> v)
                   (t_slice_last (2 * (last (sizes t) div 3)) (3 * (last (sizes t) div 3)) t))
                y' num_classes))"
  by (simp add: LossFn_Mol_locals_def Let_def split: sum.splits option.splits)

lemma LossFn_Mol_locals_assert:
  "LossFn_Mol_locals y_hat y0 num_classes lsm = Inl AssertionError
    \<longleftrightarrow> length (sizes y_hat) \<noteq> 3 \<or> last (sizes y_hat) mod 3 \<noteq> 0"
  by (auto simp: LossFn_Mol_locals_def Let_def split: sum.splits dest: t_expand_as_error)

lemma LossFn_Mol_assert_fail:
  "length (sizes y_hat) \<noteq> 3 \<or> last (sizes y_hat) mod 3 \<noteq> 0
    \<Longrightarrow> LossFn_Mol y_hat y0 num_classes lsm reduce = Inl AssertionError"
  by (auto simp: LossFn_Mol_def LossFn_Mol_locals_def Let_def)

lemma valid_input_shape:
  assumes "valid_input y_hat y0 nc"
  shows "row_len y_hat = 3 * (last (sizes y_hat) div 3)" and "0 < last (sizes y_hat) div 3"
    and "sizes y_hat \<noteq> []"
  using assms by (auto simp: valid_input_def row_len_def)

lemma LossFn_Mol_locals_valid:
  fixes lsm :: "real option"
  assumes v: "valid_input y_hat y0 nc"
  defines "K \<equiv> last (sizes y_hat) div 3"
  defines "c \<equiv> (case lsm of None \<Rightarrow> - 32.23619130191664 | Some v \<Rightarrow> v)"
  shows "\<exists>y'. t_expand_as y0 (t_slice_last K (2 * K) y_hat) = Inr y'
      \<and> sizes y' = butlast (sizes y_hat) @ [K]
      \<and> length (data y') = num_rows y_hat * K
      \<and> LossFn_Mol_locals y_hat y0 nc lsm
          = Inr (mixture_log_probs (t_slice_last 0 K y_hat) (t_slice_last K (2 * K) y_hat)
                (t_clamp_min c (t_slice_last (2 * K) (3 * K) y_hat)) y' nc)"
proof -
  from valid_input_shape [OF v] have D: "row_len y_hat = 3 * K" and K: "0 < K"
    by (simp_all add: K_def)
  have sz: "sizes (t_slice_last K (2 * K) y_hat) = butlast (sizes y_hat) @ [K]"
    by (simp add: D)
  with v have "expandable (sizes y0) (sizes (t_slice_last K (2 * K) y_hat))"
    by (simp add: valid_input_def K_def)
  then obtain y' where y': "t_expand_as y0 (t_slice_last K (2 * K) y_hat) = Inr y'"
    by (auto simp: t_expand_as_def)
  from v have "wf_tensor y0" by (simp add: valid_input_def)
  from wf_t_expand_as [OF y' this] sz have wf: "wf_tensor y'"
    and sy: "sizes y' = butlast (sizes y_hat) @ [K]"
    by simp_all
  from wf sy have len: "length (data y') = num_rows y_hat * K"
    by (simp add: wf_tensor_def numel_def num_rows_def)
  from v y' have "LossFn_Mol_locals y_hat y0 nc lsm
          = Inr (mixture_log_probs (t_slice_last 0 K y_hat) (t_slice_last K (2 * K) y_hat)
                (t_clamp_min c (t_slice_last (2 * K) (3 * K) y_hat)) y' nc)"
    by (cases lsm) (simp_all add: LossFn_Mol_locals_def Let_def valid_input_def K_def c_def)
  with y' sy len show ?thesis by blast
qed


text \<open>
  The valid inputs are exactly the well-formed inputs on which \<^verbatim>\<open>LossFn_Mol\<close> returns a loss.
\<close>

lemma LossFn_Mol_valid_returns:
  assumes "valid_input y_hat y0 num_classes"
  shows "\<exists>lse. sizes lse = butlast (sizes y_hat) \<and> length (data lse) = num_rows y_hat
      \<and> LossFn_Mol y_hat y0 num_classes lsm reduce
          = Inr (if reduce then t_map uminus (t_mean lse) else t_map uminus (t_unsqueeze_last lse))"
proof -
  from LossFn_Mol_locals_valid [OF assms, of lsm] obtain v where
    loc: "LossFn_Mol_locals y_hat y0 num_classes lsm = Inr v" and
    sz: "sizes (log_probs v) = butlast (sizes y_hat) @ [last (sizes y_hat) div 3]"
    by auto
  let ?x = "t_map2 (+) (log_probs v) (t_log_softmax (logit_probs v))"
  from valid_input_shape [OF assms] sz have "last (sizes ?x) \<noteq> 0"
    by simp
  from log_sum_exp_ok [of ?x] this obtain lse where
    lse: "log_sum_exp ?x = Inr lse" "sizes lse = butlast (sizes ?x)"
      "length (data lse) = num_rows ?x"
    by blast
  from lse(2,3) sz have "sizes lse = butlast (sizes y_hat)" "length (data lse) = num_rows y_hat"
    by (simp_all add: num_rows_def)
  moreover have "LossFn_Mol y_hat y0 num_classes lsm reduce
      = Inr (if reduce then t_map uminus (t_mean lse) else t_map uminus (t_unsqueeze_last lse))"
    by (simp add: LossFn_Mol_def loc lse(1))
  ultimately show ?thesis by blast
qed

lemma LossFn_Mol_returns_valid:
  assumes wf: "wf_tensor y_hat" "wf_tensor y0"
    and ret: "LossFn_Mol y_hat y0 num_classes lsm reduce = Inr out"
  shows "valid_input y_hat y0 num_classes"
proof -
  let ?K = "last (sizes y_hat) div 3"
  let ?M = "t_slice_last ?K (2 * ?K) y_hat"
  from ret obtain v where loc: "LossFn_Mol_locals y_hat y0 num_classes lsm = Inr v"
    and lse: "log_sum_exp (t_map2 (+) (log_probs v) (t_log_softmax (logit_probs v))) \<noteq> Inl IndexError"
    by (auto simp: LossFn_Mol_def split: sum.splits)
  from loc have shape: "length (sizes y_hat) = 3" "last (sizes y_hat) mod 3 = 0"
    and nc: "num_classes \<noteq> 1"
    by (auto simp: LossFn_Mol_locals_unfold split: if_splits sum.splits)
  from shape have D: "row_len y_hat = 3 * ?K"
    by (auto simp: row_len_def)
  then have szM: "sizes ?M = butlast (sizes y_hat) @ [?K]"
    by simp
  from loc shape nc obtain y' where ex: "t_expand_as y0 ?M = Inr y'"
    and v: "v = mixture_log_probs (t_slice_last 0 ?K y_hat) ?M
        (t_clamp_min (case lsm of None \<Rightarrow> - 32.23619130191664 | Some v \<Rightarrow> v)
           (t_slice_last (2 * ?K) (3 * ?K) y_hat)) y' num_classes"
    by (auto simp: LossFn_Mol_locals_unfold split: sum.splits)
  from ex szM have expandable: "expandable (sizes y0) (butlast (sizes y_hat) @ [?K])"
    and sy: "sizes y' = butlast (sizes y_hat) @ [?K]"
    by (auto simp: t_expand_as_def split: if_splits)
  from lse obtain r where "log_sum_exp (t_map2 (+) (log_probs v) (t_log_softmax (logit_probs v))) = Inr r"
    by (cases "log_sum_exp (t_map2 (+) (log_probs v) (t_log_softmax (logit_probs v)))")
      (auto dest: log_sum_exp_error)
  from log_sum_exp_returns [OF this] v sy have "?K \<noteq> 0"
    by simp
  then have "0 < last (sizes y_hat)"
    by (cases "last (sizes y_hat) = 0") auto
  with wf shape nc expandable show ?thesis
    by (simp add: valid_input_def)
qed

lemma LossFn_Mol_returns_iff_valid:
  assumes "wf_tensor y_hat" "wf_tensor y0"
  shows "(\<exists>out. LossFn_Mol y_hat y0 num_classes lsm reduce = Inr out) \<longleftrightarrow> valid_input y_hat y0 num_classes"
  using LossFn_Mol_returns_valid [OF assms] LossFn_Mol_valid_returns [of y_hat y0 num_classes lsm reduce]
  by blast

text \<open>
  The output depends on \<open>y_hat\<close> through its sizes, its means, its log-scales and the
  softmax of its logits only.
\<close>

lemma LossFn_Mol_cong:
  assumes "sizes a = sizes b"
    and "t_slice_last (last (sizes a) div 3) (2 * (last (sizes a) div 3)) a
       = t_slice_last (last (sizes a) div 3) (2 * (last (sizes a) div 3)) b"
    and "t_slice_last (2 * (last (sizes a) div 3)) (3 * (last (sizes a) div 3)) a
       = t_slice_last (2 * (last (sizes a) div 3)) (3 * (last (sizes a) div 3)) b"
    and "t_log_softmax (t_slice_last 0 (last (sizes a) div 3) a)
       = t_log_softmax (t_slice_last 0 (last (sizes a) div 3) b)"
  shows "LossFn_Mol a y0 num_classes lsm reduce = LossFn_Mol b y0 num_classes lsm reduce"
proof -
  define K where "K = last (sizes a) div 3"
  define M where "M = t_slice_last K (2 * K) a"
  define LS where "LS = t_clamp_min (case lsm of None \<Rightarrow> - 32.23619130191664 | Some v \<Rightarrow> v)
      (t_slice_last (2 * K) (3 * K) a)"
  define lpa where "lpa = t_slice_last 0 K a"
  define lpb where "lpb = t_slice_last 0 K b"
  let ?rhs = "\<lambda>lp. (if length (sizes a) \<noteq> 3 \<or> last (sizes a) mod 3 \<noteq> 0 then Inl AssertionError
       else case t_expand_as y0 M of
           Inl e \<Rightarrow> Inl e
         | Inr y' \<Rightarrow> if num_classes = 1 then Inl ZeroDivisionError
             else Inr (mixture_log_probs lp M LS y' num_classes))"
  have loc_a: "LossFn_Mol_locals a y0 num_classes lsm = ?rhs lpa"
    unfolding lpa_def M_def LS_def K_def by (rule LossFn_Mol_locals_unfold)
  have loc_b: "LossFn_Mol_locals b y0 num_classes lsm = ?rhs lpb"
    using LossFn_Mol_locals_unfold [of b y0 num_classes lsm]
    unfolding lpb_def M_def LS_def K_def
      assms(1) [symmetric] assms(2) [symmetric] assms(3) [symmetric] .
  have sm: "t_log_softmax lpa = t_log_softmax lpb"
    unfolding lpa_def lpb_def K_def by (rule assms(4))
  have fin: "t_map2 (+) (log_probs (mixture_log_probs lpa M LS y' num_classes)) (t_log_softmax lpa)
      = t_map2 (+) (log_probs (mixture_log_probs lpb M LS y' num_classes)) (t_log_softmax lpb)"
    for y'
    using sm mixture_log_probs_indep [of lpa M LS y' num_classes lpb]
    by simp
  show ?thesis
    unfolding LossFn_Mol_def loc_a loc_b
    by (auto simp: fin split: sum.splits)
qed

lemma sum_list_uminus: "sum_list (map uminus xs) = - sum_list (xs :: real list)"
  by (induction xs) auto

lemma t_mean_neg_unsqueeze:
  "t_mean (t_squeeze_last (t_map uminus (t_unsqueeze_last t))) = t_map uminus (t_mean t)"
  by (simp add: t_mean_def t_squeeze_last_def t_unsqueeze_last_def t_map_def numel_def
      sum_list_uminus)

subsection \<open>Numeric bounds and concrete inputs\<close>

text \<open>
  Bounds for the evaluation at \<open>num_classes = 256\<close>: the probability mass of a bin is small
  when the scale is large, and \<open>ln (255 / 2)\<close> is below 10.
\<close>

lemma sigmoid_diff_le:
  assumes "0 \<le> a" "a \<le> 1"
  shows "sigmoid a - sigmoid (- a) \<le> a"
proof -
  have e: "exp a \<le> 1 + a + a\<^sup>2" using assms by (rule exp_bound)
  have "a\<^sup>2 \<le> a" using assms by (simp add: power2_eq_square mult_left_le)
  with e have e2: "exp a - 1 \<le> 2 * a" by simp
  have ge: "1 \<le> exp a" using assms by simp
  have pos: "0 < 1 + exp a" by (simp add: add_pos_pos)
  have "sigmoid a = exp a / (1 + exp a)"
    using pos by (simp add: sigmoid_def exp_minus field_simps)
  moreover have "sigmoid (- a) = 1 / (1 + exp a)"
    by (simp add: sigmoid_def)
  ultimately have "sigmoid a - sigmoid (- a) = (exp a - 1) / (exp a + 1)"
    by (simp add: diff_divide_distrib add.commute)
  also have "\<dots> \<le> (exp a - 1) / 2"
    using ge by (intro frac_le) auto
  also have "\<dots> \<le> a" using e2 by simp
  finally show ?thesis .
qed

lemma exp_minus_1000_le: "exp (- 1000 :: real) \<le> 1 / 1001"
proof -
  have "1 + 1000 \<le> exp (1000 :: real)" by (rule exp_ge_add_one_self)
  then have "1 / exp (1000 :: real) \<le> 1 / 1001"
    by (intro divide_left_mono) auto
  then show ?thesis by (simp add: exp_minus inverse_eq_divide)
qed

lemma ln_half_255_less: "ln (255 / 2 :: real) < 10"
proof -
  have "2 \<le> exp (1 :: real)" using exp_ge_add_one_self [of 1] by simp
  then have "2 ^ 10 \<le> exp (1 :: real) ^ 10" by (intro power_mono) auto
  also have "\<dots> = exp (of_nat 10 * 1 :: real)" by (simp only: exp_of_nat_mult)
  finally have "255 / 2 < exp (10 :: real)" by simp
  then have "ln (255 / 2 :: real) < ln (exp 10)"
    by (subst ln_less_cancel_iff) auto
  then show ?thesis by simp
qed

lemma locals_at_256:
  "LossFn_Mol_locals \<lparr>sizes = [1, 1, 3], data = [0, 0, 1000]\<rparr> \<lparr>sizes = [1, 1, 1], data = [0]\<rparr> 256 None
    = Inr (mixture_log_probs \<lparr>sizes = [1, 1, 1], data = [0]\<rparr> \<lparr>sizes = [1, 1, 1], data = [0]\<rparr>
        \<lparr>sizes = [1, 1, 1], data = [1000]\<rparr> \<lparr>sizes = [1, 1, 1], data = [0]\<rparr> 256)"
  by (simp add: LossFn_Mol_locals_def Let_def t_slice_last_def t_rows_def num_rows_def row_len_def
      t_expand_as_def expandable_def t_clamp_min_def t_map_def)

lemmas eval_defs = wf_tensor_def numel_def t_rows_def num_rows_def row_len_def
  t_slice_last_def t_expand_as_def expandable_def t_clamp_min_def t_map_def valid_input_def

lemma valid_example:
  "valid_input \<lparr>sizes = [1, 1, 3], data = [0, 0, 0]\<rparr> \<lparr>sizes = [1, 1, 1], data = [1]\<rparr> 65536"
  by (simp add: eval_defs)

subsection \<open>The loops over the batches\<close>

text \<open>
  With a mode in the set every batch is processed; with another mode the first batch raises.
\<close>

lemma select_mode_invalid:
  "md \<notin> {''RAW'', ''MOL''} \<Longrightarrow> select_mode C md y_hat y0 = Inl (ValueError ''This input mode is not valid.'')"
  by (simp add: select_mode_def)

lemma select_mode_valid:
  "md \<in> {''RAW'', ''MOL''} \<Longrightarrow> \<exists>r. select_mode C md y_hat y0 = Inr r"
  by (auto simp: select_mode_def)

lemma train_batches_valid_mode:
  "mode mdl \<in> {''RAW'', ''MOL''} \<Longrightarrow> \<exists>r. train_batches C clip_norm mdl s batches = Inr r"
proof (induction batches arbitrary: mdl s)
  case Nil
  then show ?case by simp
next
  case (Cons b batches)
  obtain x m y0 where b: "b = (x, m, y0)" by (cases b)
  from select_mode_valid [OF Cons.prems] obtain y_hat y1
    where sel: "select_mode C (mode mdl) (forward C (params mdl) x m) y0 = Inr (y_hat, y1)"
    by fastforce
  have "mode (mdl\<lparr>params := optimizer_step C (params mdl) x m y1 clip_norm\<rparr>) \<in> {''RAW'', ''MOL''}"
    using Cons.prems by simp
  from Cons.IH [OF this] show ?case
    by (simp add: b sel Let_def)
qed

lemma evaluate_batches_valid_mode:
  "mode mdl \<in> {''RAW'', ''MOL''} \<Longrightarrow> \<exists>r. evaluate_batches C mdl s batches = Inr r"
proof (induction batches arbitrary: s)
  case Nil
  then show ?case by simp
next
  case (Cons b batches)
  obtain x m y0 where b: "b = (x, m, y0)" by (cases b)
  from select_mode_valid [OF Cons.prems] obtain y_hat y1
    where sel: "select_mode C (mode mdl) (forward C (params mdl) x m) y0 = Inr (y_hat, y1)"
    by fastforce
  from Cons.IH [OF Cons.prems] show ?case
    by (simp add: b sel)
qed

lemma train_batches_invalid_mode:
  assumes "mode mdl \<notin> {''RAW'', ''MOL''}" and "batches \<noteq> []"
  shows "train_batches C clip_norm mdl s batches = Inl (ValueError ''This input mode is not valid.'')"
proof -
  from assms(2) obtain x m y0 rest where "batches = (x, m, y0) # rest"
    by (cases batches) auto
  then show ?thesis
    by (simp add: select_mode_invalid [OF assms(1)])
qed

lemma evaluate_batches_invalid_mode:
  assumes "mode mdl \<notin> {''RAW'', ''MOL''}" and "batches \<noteq> []"
  shows "evaluate_batches C mdl s batches = Inl (ValueError ''This input mode is not valid.'')"
proof -
  from assms(2) obtain x m y0 rest where "batches = (x, m, y0) # rest"
    by (cases batches) auto
  then show ?thesis
    by (simp add: select_mode_invalid [OF assms(1)])
qed

section \<open>The claims\<close>

subsection \<open>C1: the fallback of the inner blend\<close>

text \<open>
  What the code does where the mask \<^verbatim>\<open>cdf_delta > 1e-5\<close> is false: on every valid input the
  inner blend is \<open>log_pdf_mid\<close> minus the literal \<open>10.397192449493701\<close> of line 66,
  whatever \<open>num_classes\<close> is.
\<close>

lemma LossFn_Mol_fallback_literal:
  assumes "valid_input y_hat y0 num_classes"
  shows "\<exists>v. LossFn_Mol_locals y_hat y0 num_classes lsm = Inr v
     \<and> (\<forall>i < length (data (inner_inner_out v)). \<not> data (cdf_delta v) ! i > 1 / 10 ^ 5 \<longrightarrow>
          data (inner_inner_out v) ! i = data (log_pdf_mid v) ! i - 10.397192449493701)"
proof -
  from LossFn_Mol_locals_valid [OF assms, of lsm] obtain v lp m ls y'
    where loc: "LossFn_Mol_locals y_hat y0 num_classes lsm = Inr v"
      and v: "v = mixture_log_probs lp m ls y' num_classes"
    by blast
  from mixture_fallback_elem [OF v] loc show ?thesis by blast
qed

text \<open>
  Claim C1 says that, for every value of \<open>num_classes\<close>, the log-probability of an
  element at which \<^verbatim>\<open>cdf_delta > 1e-5\<close> is false is
  \<open>log_pdf_mid - log((num_classes - 1) / 2)\<close>, as the comment of line 66 also says. The
  literal of line 66 is that logarithm for \<open>num_classes = 65536\<close> only. Evaluation at
  \<open>num_classes = 256\<close>, with one mixture component of mean 0 and log-scale 1000 and the
  target 0: the mask is false at the only element, the target is not saturated, so that
  \<open>log_probs\<close> is the inner blend there; the code subtracts the literal, and the result is
  not \<open>log_pdf_mid - ln (255 / 2)\<close>.
\<close>

theorem LossFn_Mol_fallback_constant_at_256:
  "\<exists>v. LossFn_Mol_locals \<lparr>sizes = [1, 1, 3], data = [0, 0, 1000]\<rparr>
          \<lparr>sizes = [1, 1, 1], data = [0]\<rparr> 256 None = Inr v
     \<and> length (data (log_probs v)) = 1
     \<and> \<not> data (cdf_delta v) ! 0 > 1 / 10 ^ 5
     \<and> data (log_probs v) ! 0 = data (inner_inner_out v) ! 0
     \<and> data (inner_inner_out v) ! 0 = data (log_pdf_mid v) ! 0 - 10.397192449493701
     \<and> data (inner_inner_out v) ! 0 \<noteq> data (log_pdf_mid v) ! 0 - ln (real_of_int (256 - 1) / 2)"
proof -
  define v where "v = mixture_log_probs \<lparr>sizes = [1, 1, 1], data = [0]\<rparr>
      \<lparr>sizes = [1, 1, 1], data = [0]\<rparr> \<lparr>sizes = [1, 1, 1], data = [1000]\<rparr>
      \<lparr>sizes = [1, 1, 1], data = [0]\<rparr> 256"
  have len: "length (data (log_probs v)) = 1" "length (data (inner_inner_out v)) = 1"
    by (simp_all add: v_def mixture_log_probs_def Let_def t_clamp_min_def)
  have cdf: "data (cdf_delta v) ! 0
      = sigmoid (exp (- 1000) / 255) - sigmoid (- (exp (- 1000) / 255))"
    by (simp add: v_def mixture_log_probs_def Let_def)
  have "exp (- 1000 :: real) / 255 \<le> (1 / 1001) / 255"
    using exp_minus_1000_le by (intro divide_right_mono) auto
  then have small: "exp (- 1000 :: real) / 255 \<le> 1 / 10 ^ 5"
    by simp
  then have "sigmoid (exp (- 1000) / 255) - sigmoid (- (exp (- 1000) / 255)) \<le> exp (- 1000) / 255"
    by (intro sigmoid_diff_le) auto
  with small cdf have mask: "\<not> data (cdf_delta v) ! 0 > 1 / 10 ^ 5"
    by linarith
  from len have i: "0 < length (data (inner_inner_out v))" "0 < length (data (log_probs v))"
    by simp_all
  have fb: "data (inner_inner_out v) ! 0 = data (log_pdf_mid v) ! 0 - 10.397192449493701"
    by (rule mixture_fallback_elem [OF v_def i(1) mask])
  have "y v = \<lparr>sizes = [1, 1, 1], data = [0]\<rparr>"
    by (simp add: v_def)
  then have interior: "data (log_probs v) ! 0 = data (inner_inner_out v) ! 0"
    by (intro mixture_interior_elem [OF v_def i(2)]) simp_all
  have "ln (real_of_int (256 - 1) / 2) < 10.397192449493701"
    using ln_half_255_less by simp
  with fb have "data (inner_inner_out v) ! 0 \<noteq> data (log_pdf_mid v) ! 0 - ln (real_of_int (256 - 1) / 2)"
    by simp
  with len mask fb interior locals_at_256 show ?thesis
    unfolding v_def by blast
qed

subsection \<open>C2: finite outputs\<close>

text \<open>
  Claim C2, that the output holds no nan and no infinity, is about the special values of
  floating-point arithmetic (an overflowing \<^verbatim>\<open>exp\<close>, a difference of infinities). The tensors
  of this theory hold real numbers, among which there are no such values, so the claim has
  no counterpart here.
\<close>

subsection \<open>C3: log\_sum\_exp and the naive reference\<close>




subsection \<open>C4: the reduced output is the mean of the unreduced one\<close>

text \<open>
  Claim C4: for every input, \<^verbatim>\<open>LossFn_Mol\<close> with \<^verbatim>\<open>reduce=True\<close> returns the mean over all
  elements of the tensor that it returns with \<^verbatim>\<open>reduce=False\<close>, squeezed of its last axis
  (and raises what the unreduced call raises).
\<close>

theorem LossFn_Mol_reduce_is_mean:
  "LossFn_Mol y_hat y0 num_classes lsm True
     = (case LossFn_Mol y_hat y0 num_classes lsm False of
          Inl e \<Rightarrow> Inl e
        | Inr out \<Rightarrow> Inr (t_mean (t_squeeze_last out)))"
  by (simp add: LossFn_Mol_def t_mean_neg_unsqueeze split: sum.splits)

text \<open>
  An instance, on a valid input, where both calls return.
\<close>

theorem LossFn_Mol_reduce_is_mean_witness:
  "(\<exists>out. LossFn_Mol \<lparr>sizes = [1, 1, 3], data = [0, 0, 0]\<rparr> \<lparr>sizes = [1, 1, 1], data = [1]\<rparr>
        65536 None False = Inr out
      \<and> LossFn_Mol \<lparr>sizes = [1, 1, 3], data = [0, 0, 0]\<rparr> \<lparr>sizes = [1, 1, 1], data = [1]\<rparr>
        65536 None True = Inr (t_mean (t_squeeze_last out)))"
proof -
  from LossFn_Mol_valid_returns [OF valid_example, of None False] obtain out where
    "LossFn_Mol \<lparr>sizes = [1, 1, 3], data = [0, 0, 0]\<rparr> \<lparr>sizes = [1, 1, 1], data = [1]\<rparr>
        65536 None False = Inr out"
    by auto
  with LossFn_Mol_reduce_is_mean [of "\<lparr>sizes = [1, 1, 3], data = [0, 0, 0]\<rparr>"
      "\<lparr>sizes = [1, 1, 1], data = [1]\<rparr>" 65536 None]
  show ?thesis by simp
qed

subsection \<open>C5: shifting the mixing logits\<close>



subsection \<open>C6: the saturated targets\<close>



subsection \<open>C7: the assertions on the shape\<close>

text \<open>
  Claim C7: \<^verbatim>\<open>LossFn_Mol\<close> raises the AssertionError of its two assertions exactly when
  \<open>y_hat\<close> does not have three axes or its last axis is not divisible by 3, whatever the
  other arguments are; no later step decides or precedes it.
\<close>

theorem LossFn_Mol_assertion_iff:
  "LossFn_Mol y_hat y0 num_classes lsm reduce = Inl AssertionError
    \<longleftrightarrow> length (sizes y_hat) \<noteq> 3 \<or> last (sizes y_hat) mod 3 \<noteq> 0"
proof -
  have "LossFn_Mol y_hat y0 num_classes lsm reduce = Inl AssertionError
    \<longleftrightarrow> LossFn_Mol_locals y_hat y0 num_classes lsm = Inl AssertionError"
    by (auto simp: LossFn_Mol_def split: sum.splits dest: log_sum_exp_error)
  then show ?thesis
    by (simp only: LossFn_Mol_locals_assert)
qed

text \<open>
  Instances: a tensor of rank 2, a last axis of size 4, and a tensor that passes.
\<close>

theorem LossFn_Mol_assertion_iff_witness:
  "LossFn_Mol \<lparr>sizes = [2, 3], data = [0, 0, 0, 0, 0, 0]\<rparr> \<lparr>sizes = [1, 1, 1], data = [1]\<rparr> 65536 None True
      = Inl AssertionError
   \<and> LossFn_Mol \<lparr>sizes = [1, 1, 4], data = [0, 0, 0, 0]\<rparr> \<lparr>sizes = [1, 1, 1], data = [1]\<rparr> 65536 None True
      = Inl AssertionError
   \<and> LossFn_Mol \<lparr>sizes = [1, 1, 3], data = [0, 0, 0]\<rparr> \<lparr>sizes = [1, 1, 1], data = [1]\<rparr> 65536 None True
      \<noteq> Inl AssertionError"
  using LossFn_Mol_assertion_iff [of "\<lparr>sizes = [2, 3], data = [0, 0, 0, 0, 0, 0]\<rparr>"
      "\<lparr>sizes = [1, 1, 1], data = [1]\<rparr>" 65536 None True]
    LossFn_Mol_assertion_iff [of "\<lparr>sizes = [1, 1, 4], data = [0, 0, 0, 0]\<rparr>"
      "\<lparr>sizes = [1, 1, 1], data = [1]\<rparr>" 65536 None True]
    LossFn_Mol_assertion_iff [of "\<lparr>sizes = [1, 1, 3], data = [0, 0, 0]\<rparr>"
      "\<lparr>sizes = [1, 1, 1], data = [1]\<rparr>" 65536 None True]
  by simp

subsection \<open>C8: the shape of the output\<close>

text \<open>
  Claim C8: for every valid input with \<open>y_hat\<close> of sizes \<open>[B, T, 3 * K]\<close>, \<^verbatim>\<open>LossFn_Mol\<close>
  with \<^verbatim>\<open>reduce=False\<close> returns a well-formed tensor of sizes \<open>[B, T, 1]\<close>, and with
  \<^verbatim>\<open>reduce=True\<close> a well-formed tensor of rank 0, a single scalar.
\<close>

theorem LossFn_Mol_output_shape:
  assumes "valid_input y_hat y0 num_classes" and "sizes y_hat = [B, T, 3 * K]"
  shows "(\<exists>out. LossFn_Mol y_hat y0 num_classes lsm False = Inr out
            \<and> sizes out = [B, T, 1] \<and> wf_tensor out)
       \<and> (\<exists>s. LossFn_Mol y_hat y0 num_classes lsm True = Inr s
            \<and> sizes s = [] \<and> wf_tensor s)"
proof -
  from LossFn_Mol_locals_valid [OF assms(1), of lsm] obtain v where
    loc: "LossFn_Mol_locals y_hat y0 num_classes lsm = Inr v" and
    sz: "sizes (log_probs v) = butlast (sizes y_hat) @ [last (sizes y_hat) div 3]"
    by auto
  let ?x = "t_map2 (+) (log_probs v) (t_log_softmax (logit_probs v))"
  from valid_input_shape [OF assms(1)] sz have "last (sizes ?x) \<noteq> 0"
    by simp
  from log_sum_exp_ok [of ?x] this obtain lse where
    lse: "log_sum_exp ?x = Inr lse" "sizes lse = butlast (sizes ?x)"
      "length (data lse) = num_rows ?x"
    by blast
  from lse(2,3) sz assms(2) have shape: "sizes lse = [B, T]" "length (data lse) = B * T"
    by (simp_all add: num_rows_def)
  have "LossFn_Mol y_hat y0 num_classes lsm False = Inr (t_map uminus (t_unsqueeze_last lse))"
    by (simp add: LossFn_Mol_def loc lse(1))
  moreover have "LossFn_Mol y_hat y0 num_classes lsm True = Inr (t_map uminus (t_mean lse))"
    by (simp add: LossFn_Mol_def loc lse(1))
  ultimately show ?thesis
    using shape by (simp add: t_unsqueeze_last_def t_mean_def wf_tensor_def numel_def)
qed

text \<open>
  An instance with \<open>B = T = K = 1\<close>.
\<close>

theorem LossFn_Mol_output_shape_witness:
  "valid_input \<lparr>sizes = [1, 1, 3], data = [0, 0, 0]\<rparr> \<lparr>sizes = [1, 1, 1], data = [1]\<rparr> 65536
   \<and> (\<exists>out. LossFn_Mol \<lparr>sizes = [1, 1, 3], data = [0, 0, 0]\<rparr> \<lparr>sizes = [1, 1, 1], data = [1]\<rparr> 65536 None False = Inr out
        \<and> sizes out = [1, 1, 1] \<and> wf_tensor out)
   \<and> (\<exists>s. LossFn_Mol \<lparr>sizes = [1, 1, 3], data = [0, 0, 0]\<rparr> \<lparr>sizes = [1, 1, 1], data = [1]\<rparr> 65536 None True = Inr s
        \<and> sizes s = [] \<and> wf_tensor s)"
  using LossFn_Mol_output_shape [OF valid_example, of 1 1 1 None] valid_example
  by simp

subsection \<open>C9: the mode tag in the loops\<close>

text \<open>
  Claim C9: in \<^verbatim>\<open>train_one_epoch\<close> and in \<^verbatim>\<open>evaluate\<close>, a mode tag outside
  \<open>{''RAW'', ''MOL''}\<close> makes the first batch raise the ValueError of the selection, so that
  no loss is computed; with a tag in the set neither loop raises a ValueError.
\<close>

theorem mode_outside_set_raises_ValueError:
  "(mode mdl \<notin> {''RAW'', ''MOL''} \<and> data_loader \<noteq> [] \<longrightarrow>
      train_one_epoch C clip_norm mdl data_loader = Inl (ValueError ''This input mode is not valid.'')
      \<and> evaluate C mdl data_loader = Inl (ValueError ''This input mode is not valid.''))
   \<and> (mode mdl \<in> {''RAW'', ''MOL''} \<longrightarrow>
      train_one_epoch C clip_norm mdl data_loader \<noteq> Inl (ValueError msg)
      \<and> evaluate C mdl data_loader \<noteq> Inl (ValueError msg))"
proof (intro conjI impI)
  assume a: "mode mdl \<notin> {''RAW'', ''MOL''} \<and> data_loader \<noteq> []"
  then show "train_one_epoch C clip_norm mdl data_loader = Inl (ValueError ''This input mode is not valid.'')"
    by (simp add: train_one_epoch_def train_batches_invalid_mode)
  from a show "evaluate C mdl data_loader = Inl (ValueError ''This input mode is not valid.'')"
    by (simp add: evaluate_def evaluate_batches_invalid_mode)
next
  assume a: "mode mdl \<in> {''RAW'', ''MOL''}"
  from train_batches_valid_mode [OF a] obtain r
    where "train_batches C clip_norm mdl \<lparr>loss = 0, gradient = None\<rparr> data_loader = Inr r"
    by blast
  then show "train_one_epoch C clip_norm mdl data_loader \<noteq> Inl (ValueError msg)"
    by (cases r) (simp add: train_one_epoch_def)
  from evaluate_batches_valid_mode [OF a] obtain r'
    where "evaluate_batches C mdl 0 data_loader = Inr r'"
    by blast
  then show "evaluate C mdl data_loader \<noteq> Inl (ValueError msg)"
    by (simp add: evaluate_def)
qed

text \<open>
  Instances with trivial collaborators and one batch: the tag \<open>''ABC''\<close> raises in both
  loops, the tags \<open>''MOL''\<close> and \<open>''RAW''\<close> do not.
\<close>

theorem mode_outside_set_raises_ValueError_witness:
  "train_one_epoch \<lparr>forward = \<lambda>p x m. x, transpose_1_2 = \<lambda>t. t, float_unsqueeze = \<lambda>t. t,
        criterion = \<lambda>a b. 0, clip_grad_norm = \<lambda>p x m a c. 0, optimizer_step = \<lambda>p x m a c. p\<rparr>
      0 \<lparr>mode = ''ABC'', params = ()\<rparr> [(0 :: nat, 0, 0)]
     = Inl (ValueError ''This input mode is not valid.'')
   \<and> evaluate \<lparr>forward = \<lambda>p x m. x, transpose_1_2 = \<lambda>t. t, float_unsqueeze = \<lambda>t. t,
        criterion = \<lambda>a b. 0, clip_grad_norm = \<lambda>p x m a c. 0, optimizer_step = \<lambda>p x m a c. p\<rparr>
      \<lparr>mode = ''ABC'', params = ()\<rparr> [(0 :: nat, 0, 0)]
     = Inl (ValueError ''This input mode is not valid.'')
   \<and> train_one_epoch \<lparr>forward = \<lambda>p x m. x, transpose_1_2 = \<lambda>t. t, float_unsqueeze = \<lambda>t. t,
        criterion = \<lambda>a b. 0, clip_grad_norm = \<lambda>p x m a c. 0, optimizer_step = \<lambda>p x m a c. p\<rparr>
      0 \<lparr>mode = ''MOL'', params = ()\<rparr> [(0 :: nat, 0, 0)]
     \<noteq> Inl (ValueError ''This input mode is not valid.'')
   \<and> evaluate \<lparr>forward = \<lambda>p x m. x, transpose_1_2 = \<lambda>t. t, float_unsqueeze = \<lambda>t. t,
        criterion = \<lambda>a b. 0, clip_grad_norm = \<lambda>p x m a c. 0, optimizer_step = \<lambda>p x m a c. p\<rparr>
      \<lparr>mode = ''RAW'', params = ()\<rparr> [(0 :: nat, 0, 0)]
     \<noteq> Inl (ValueError ''This input mode is not valid.'')"
  using mode_outside_set_raises_ValueError [of "\<lparr>mode = ''ABC'', params = ()\<rparr>" "[(0 :: nat, 0, 0)]"
      "\<lparr>forward = \<lambda>p x m. x, transpose_1_2 = \<lambda>t. t, float_unsqueeze = \<lambda>t. t,
        criterion = \<lambda>a b. 0, clip_grad_norm = \<lambda>p x m a c. 0, optimizer_step = \<lambda>p x m a c. p\<rparr>" 0]
    mode_outside_set_raises_ValueError [of "\<lparr>mode = ''MOL'', params = ()\<rparr>" "[(0 :: nat, 0, 0)]"
      "\<lparr>forward = \<lambda>p x m. x, transpose_1_2 = \<lambda>t. t, float_unsqueeze = \<lambda>t. t,
        criterion = \<lambda>a b. 0, clip_grad_norm = \<lambda>p x m a c. 0, optimizer_step = \<lambda>p x m a c. p\<rparr>" 0
      "''This input mode is not valid.''"]
    mode_outside_set_raises_ValueError [of "\<lparr>mode = ''RAW'', params = ()\<rparr>" "[(0 :: nat, 0, 0)]"
      "\<lparr>forward = \<lambda>p x m. x, transpose_1_2 = \<lambda>t. t, float_unsqueeze = \<lambda>t. t,
        criterion = \<lambda>a b. 0, clip_grad_norm = \<lambda>p x m a c. 0, optimizer_step = \<lambda>p x m a c. p\<rparr>" 0
      "''This input mode is not valid.''"]
  by simp

subsection \<open>C10: a single mixture component\<close>

text \<open>
  Claim C10: when the last axis of \<open>y_hat\<close> has size 3, the result of \<^verbatim>\<open>LossFn_Mol\<close> does
  not depend on the logits: two well-formed tensors of the same sizes whose rows agree
  beyond their first entry give equal results.
\<close>

theorem LossFn_Mol_single_component_ignores_logits:
  assumes "wf_tensor a" and "wf_tensor b" and "sizes a = sizes b" and "last (sizes a) = 3"
    and "map (drop 1) (t_rows a) = map (drop 1) (t_rows b)"
  shows "LossFn_Mol a y0 num_classes lsm reduce = LossFn_Mol b y0 num_classes lsm reduce"
proof (cases "length (sizes a) = 3")
  case False
  with assms(3) show ?thesis
    using LossFn_Mol_assert_fail [of a] LossFn_Mol_assert_fail [of b] by simp
next
  case True
  with assms(3,4) have len: "row_len a = 3" "row_len b = 3" and rows: "num_rows a = num_rows b"
    by (auto simp: row_len_def num_rows_def)
  have K: "last (sizes a) div 3 = 1"
    by (simp add: assms(4))
  have "data (t_log_softmax (t_slice_last 0 1 a)) = data (t_log_softmax (t_slice_last 0 1 b))"
    using log_softmax_single_logit [OF assms(1)] log_softmax_single_logit [OF assms(2)] len rows
    by simp
  moreover have "sizes (t_log_softmax (t_slice_last 0 1 a)) = sizes (t_log_softmax (t_slice_last 0 1 b))"
    using assms(3) len by (simp add: t_log_softmax_def)
  ultimately have sm: "t_log_softmax (t_slice_last 0 1 a) = t_log_softmax (t_slice_last 0 1 b)"
    by simp
  show ?thesis
  proof (rule LossFn_Mol_cong)
    show "sizes a = sizes b" by (rule assms(3))
    show "t_slice_last (last (sizes a) div 3) (2 * (last (sizes a) div 3)) a
        = t_slice_last (last (sizes a) div 3) (2 * (last (sizes a) div 3)) b"
      unfolding K by (rule t_slice_last_tail_cong [OF assms(3,5)]) simp
    show "t_slice_last (2 * (last (sizes a) div 3)) (3 * (last (sizes a) div 3)) a
        = t_slice_last (2 * (last (sizes a) div 3)) (3 * (last (sizes a) div 3)) b"
      unfolding K by (rule t_slice_last_tail_cong [OF assms(3,5)]) simp
    show "t_log_softmax (t_slice_last 0 (last (sizes a) div 3) a)
        = t_log_softmax (t_slice_last 0 (last (sizes a) div 3) b)"
      unfolding K by (rule sm)
  qed
qed

text \<open>
  An instance: the logits 0 and 7 with the same mean and log-scale, on a valid input.
\<close>

theorem LossFn_Mol_single_component_ignores_logits_witness:
  "wf_tensor \<lparr>sizes = [1, 1, 3], data = [0, 0, 0]\<rparr> \<and> wf_tensor \<lparr>sizes = [1, 1, 3], data = [7, 0, 0]\<rparr>
   \<and> LossFn_Mol \<lparr>sizes = [1, 1, 3], data = [0, 0, 0]\<rparr> \<lparr>sizes = [1, 1, 1], data = [1]\<rparr> 65536 None True
     = LossFn_Mol \<lparr>sizes = [1, 1, 3], data = [7, 0, 0]\<rparr> \<lparr>sizes = [1, 1, 1], data = [1]\<rparr> 65536 None True
   \<and> (\<exists>out. LossFn_Mol \<lparr>sizes = [1, 1, 3], data = [0, 0, 0]\<rparr> \<lparr>sizes = [1, 1, 1], data = [1]\<rparr>
          65536 None True = Inr out)"
proof -
  have a: "wf_tensor \<lparr>sizes = [1, 1, 3], data = [0, 0, 0]\<rparr>"
    and b: "wf_tensor \<lparr>sizes = [1, 1, 3], data = [7, 0, 0]\<rparr>"
    by (simp_all add: eval_defs)
  have "LossFn_Mol \<lparr>sizes = [1, 1, 3], data = [0, 0, 0]\<rparr> \<lparr>sizes = [1, 1, 1], data = [1]\<rparr> 65536 None True
     = LossFn_Mol \<lparr>sizes = [1, 1, 3], data = [7, 0, 0]\<rparr> \<lparr>sizes = [1, 1, 1], data = [1]\<rparr> 65536 None True"
    by (rule LossFn_Mol_single_component_ignores_logits [OF a b]) (simp_all add: eval_defs)
  moreover from LossFn_Mol_valid_returns [OF valid_example, of None True] obtain out where
    "LossFn_Mol \<lparr>sizes = [1, 1, 3], data = [0, 0, 0]\<rparr> \<lparr>sizes = [1, 1, 1], data = [1]\<rparr>
        65536 None True = Inr out"
    by auto
  ultimately show ?thesis using a b by simp
qed

end
